theory Spec2Isabelle
  imports Complex_Main
begin

section \<open>Python values that cross the collaborator boundaries\<close>

text \<open>
  Percentages (CPU, free memory, thresholds, confidence) are JSON numbers; they are
  modelled as \<open>real\<close>, on which Python's comparisons of finite int/float values agree.
  The critical-error count is an unbounded Python int.
\<close>

datatype json =
    JNull
  | JBool bool
  | JNum real
  | JStr string
  | JArr "json list"
  | JObj "(string \<times> json) list"

datatype py_error =
    KeyError string
  | TypeError string
  | RuntimeError string
  | Raised string

text \<open>\<open>str(e)\<close>: a KeyError prints the repr of its key, the others their message.\<close>

fun str_error :: "py_error \<Rightarrow> string" where
  "str_error (KeyError k) = [CHR 0x27] @ k @ [CHR 0x27]"
| "str_error (TypeError m) = m"
| "str_error (RuntimeError m) = m"
| "str_error (Raised m) = m"

text \<open>Python truthiness of a decoded JSON value (\<open>bool(x)\<close>, \<open>if not x\<close>).\<close>

fun truthy :: "json \<Rightarrow> bool" where
  "truthy JNull = False"
| "truthy (JBool b) = b"
| "truthy (JNum x) = (x \<noteq> 0)"
| "truthy (JStr s) = (s \<noteq> [])"
| "truthy (JArr xs) = (xs \<noteq> [])"
| "truthy (JObj kvs) = (kvs \<noteq> [])"

text \<open>
  \<open>data[key]\<close> on a decoded JSON value: a dict looks the key up (the last duplicate of a
  key wins when the object is decoded) and raises KeyError when it is missing; every
  other JSON value raises TypeError for a string subscript (the wording of the message
  follows CPython, with the class name of a number left generic).
\<close>

fun getitem :: "json \<Rightarrow> string \<Rightarrow> py_error + json" where
  "getitem (JObj kvs) k =
     (case map_of (rev kvs) k of None \<Rightarrow> Inl (KeyError k) | Some v \<Rightarrow> Inr v)"
| "getitem (JArr xs) k = Inl (TypeError ''list indices must be integers or slices, not str'')"
| "getitem (JStr s) k = Inl (TypeError ''string indices must be integers'')"
| "getitem (JNum x) k = Inl (TypeError ''number object is not subscriptable'')"
| "getitem (JBool b) k = Inl (TypeError ''bool object is not subscriptable'')"
| "getitem JNull k = Inl (TypeError ''NoneType object is not subscriptable'')"

text \<open>\<open>a or b\<close> on an optional string: None and the empty string are falsy.\<close>

definition or_str :: "string option \<Rightarrow> string option \<Rightarrow> string option" where
  "or_str a b = (case a of None \<Rightarrow> b | Some s \<Rightarrow> if s = [] then b else Some s)"

definition truthy_str :: "string option \<Rightarrow> bool" where
  "truthy_str a = (case a of None \<Rightarrow> False | Some s \<Rightarrow> s \<noteq> [])"

text \<open>\<open>v or d\<close> on an optional number: None and zero are falsy.\<close>

definition or_num :: "real option \<Rightarrow> real \<Rightarrow> real" where
  "or_num v d = (case v of None \<Rightarrow> d | Some x \<Rightarrow> if x = 0 then d else x)"

text \<open>
  A dictionary entry as \<open>dict.get(key, default)\<close> sees it: the key may be missing, present
  with the value None (JSON null), or present with a value.
\<close>

datatype 'a field = Missing | Null | Val 'a

definition get_default :: "'a field \<Rightarrow> 'a \<Rightarrow> 'a option" where
  "get_default f d = (case f of Missing \<Rightarrow> Some d | Null \<Rightarrow> None | Val x \<Rightarrow> Some x)"

text \<open>Decimal rendering of a Python int, as \<open>str\<close> and f-strings print it.\<close>

fun str_nat :: "nat \<Rightarrow> string" where
  "str_nat n =
     (if n < 10 then [''0123456789'' ! n]
      else str_nat (n div 10) @ [''0123456789'' ! (n mod 10)])"

definition str_int :: "int \<Rightarrow> string" where
  "str_int i = (if i < 0 then CHR ''-'' # str_nat (nat (- i)) else str_nat (nat i))"

definition str_bool :: "bool \<Rightarrow> string" where
  "str_bool b = (if b then ''True'' else ''False'')"

section \<open>Inventory, policy and telemetry data\<close>

text \<open>
  A row of the routers table as \<open>r.get(...)\<close> reads it: a missing key and a NULL column
  both read as None. Only the columns the decision core reads are kept.
\<close>

record router =
  r_target_ver :: "string option"
  r_current_ver :: "string option"
  r_maintenance_window :: "string option"

text \<open>
  The per-vendor/model policy as a dictionary: None is a key that is not there (no policy
  row matched, so the dictionary is empty), and the global default applies.
\<close>

record policy =
  max_cpu_percent :: "real option"
  min_free_mem_percent :: "real option"

definition empty_policy :: policy where
  "empty_policy = \<lparr>max_cpu_percent = None, min_free_mem_percent = None\<rparr>"

text \<open>\<open>pol.get(key, default)\<close> on a threshold of the policy.\<close>

definition threshold :: "real option \<Rightarrow> real \<Rightarrow> real" where
  "threshold v d = (case v of None \<Rightarrow> d | Some x \<Rightarrow> x)"

text \<open>
  The policy file \<open>policy.yaml\<close> is not part of the sources; the keys the code reads from
  it are taken as a parameter.
\<close>

record policy_file =
  defaults_window :: string
  defaults_max_cpu_percent :: real
  defaults_min_free_mem_percent :: real
  defaults_max_critical_errors :: int
  defaults_require_maintenance_window :: bool
  llm_gate_enabled :: bool

text \<open>The \<open>metrics\<close> dictionary of a health summary.\<close>

record metrics =
  cpu_avg :: "real field"
  mem_free_min :: "real field"
  critical_errors :: "int option"

definition empty_metrics :: metrics where
  "empty_metrics = \<lparr>cpu_avg = Missing, mem_free_min = Missing, critical_errors = None\<rparr>"

text \<open>
  A health summary; \<open>hs_metrics = None\<close> is a summary without a \<open>metrics\<close> key (what the
  telemetry server answers when the tool failed: an object holding only \<open>error\<close>).
\<close>

record health_summary =
  hs_metrics :: "metrics option"

section \<open>HealthAggregator: calculate_health_status (servers/influx_server.py)\<close>

definition calculate_health_status :: "real option \<Rightarrow> real option \<Rightarrow> int \<Rightarrow> string" where
  "calculate_health_status cpu mem errors =
     (case (cpu, mem) of
        (Some c, Some m) \<Rightarrow>
          if errors > 0 then ''critical''
          else if c > 80 \<or> m < 20 then ''warning''
          else if c > 70 \<or> m < 30 then ''caution''
          else ''healthy''
      | _ \<Rightarrow> ''unknown'')"

section \<open>PolicyEvaluator\<close>

subsection \<open>evaluate_upgrade_rules (src/agent/decision_engine.py)\<close>

text \<open>
  The fields of an UpgradeDecision that the decision path reads. \<open>approve\<close>, \<open>reason\<close> and
  \<open>confidence\<close> hold whatever the gate's decoded JSON held, so they are JSON values; the
  rule evaluator stores a bool, a string and 0.8 there.
\<close>

record UpgradeDecision =
  ud_approve :: json
  ud_reason :: json
  ud_target_ver :: "string option"
  ud_confidence :: json

definition check_mark :: string where
  "check_mark = [CHR 0xE2, CHR 0x9C, CHR 0x93]"

definition cross_mark :: string where
  "cross_mark = [CHR 0xE2, CHR 0x9C, CHR 0x97]"

definition mark :: "bool \<Rightarrow> string" where
  "mark ok = (if ok then check_mark else cross_mark)"

definition str_opt :: "('a \<Rightarrow> string) \<Rightarrow> 'a option \<Rightarrow> string" where
  "str_opt f v = (case v of None \<Rightarrow> ''None'' | Some x \<Rightarrow> f x)"

fun join :: "string \<Rightarrow> string list \<Rightarrow> string" where
  "join sep [] = []"
| "join sep [x] = x"
| "join sep (x # y # ys) = x @ sep @ join sep (y # ys)"

text \<open>The four conditions of lines 42-53, on the values \<open>metrics.get\<close> returned.\<close>

definition cpu_ok :: "real option \<Rightarrow> real \<Rightarrow> bool" where
  "cpu_ok cpu max_cpu = (case cpu of Some c \<Rightarrow> c \<le> max_cpu | None \<Rightarrow> False)"

definition mem_ok :: "real option \<Rightarrow> real \<Rightarrow> bool" where
  "mem_ok mem min_mem = (case mem of Some m \<Rightarrow> m \<ge> min_mem | None \<Rightarrow> False)"

text \<open>
  \<open>fmt\<close> is Python's rendering of a JSON number inside an f-string (the shortest repr of
  a float, the decimal digits of an int); it only shapes the reason text.
\<close>

definition evaluate_upgrade_rules ::
  "policy_file \<Rightarrow> (real \<Rightarrow> string) \<Rightarrow> router \<Rightarrow> policy \<Rightarrow> health_summary \<Rightarrow> UpgradeDecision" where
  "evaluate_upgrade_rules pf fmt router_info pol health =
     (let m = (case hs_metrics health of None \<Rightarrow> empty_metrics | Some x \<Rightarrow> x);
          max_cpu = threshold (max_cpu_percent pol) (defaults_max_cpu_percent pf);
          min_mem = threshold (min_free_mem_percent pol) (defaults_min_free_mem_percent pf);
          max_errors = defaults_max_critical_errors pf;
          cpu = get_default (cpu_avg m) 100;
          mem = get_default (mem_free_min m) 0;
          errors = (case critical_errors m of None \<Rightarrow> 0 | Some e \<Rightarrow> e);
          within_window = True;
          c_ok = cpu_ok cpu max_cpu;
          m_ok = mem_ok mem min_mem;
          errors_ok = (errors \<le> max_errors);
          window_ok = (within_window \<or> \<not> defaults_require_maintenance_window pf);
          approve = (c_ok \<and> m_ok \<and> errors_ok \<and> window_ok);
          conditions =
            [''CPU '' @ str_opt fmt cpu @ ''% '' @ mark c_ok @ '' (limit: '' @ fmt max_cpu @ ''%)'',
             ''Memory '' @ str_opt fmt mem @ ''% '' @ mark m_ok @ '' (min: '' @ fmt min_mem @ ''%)'',
             ''Errors '' @ str_int errors @ '' '' @ mark errors_ok
               @ '' (max: '' @ str_int max_errors @ '')'',
             ''Window '' @ mark window_ok]
      in \<lparr>ud_approve = JBool approve,
          ud_reason = JStr ((if approve then ''All conditions met: '' else ''Conditions failed: '')
                            @ join '', '' conditions),
          ud_target_ver = or_str (r_target_ver router_info) (r_current_ver router_info),
          ud_confidence = JNum 0.8\<rparr>)"

subsection \<open>rule_decision (agent/decision_agent.py)\<close>

text \<open>
  What \<open>requests.post\<close> came back with: it raised (connection refused, timeout), or an HTTP
  response with its status code, its text and the payload \<open>resp.json()\<close> decodes (None
  when the body is not JSON). A payload is typed as the repository's own server builds it.
\<close>

datatype 'a reply = Conn_error string | Http nat string "'a option"

text \<open>
  \<open>post\<close>, lines 13-22: \<open>raise_for_status\<close> raises for the status codes 400 to 599.
  \<open>resp.text[:300]\<close> is \<open>take 300\<close> of the text.
\<close>

definition post :: "string \<Rightarrow> 'a reply \<Rightarrow> py_error + 'a" where
  "post url r =
     (case r of
        Conn_error m \<Rightarrow> Inl (Raised m)
      | Http code txt body \<Rightarrow>
          if 400 \<le> code \<and> code < 600
          then Inl (RuntimeError (''HTTP '' @ str_nat code @ '' from '' @ url @ '': '' @ take 300 txt))
          else (case body of
                  None \<Rightarrow> Inl (RuntimeError (''Non-JSON response from '' @ url @ '': '' @ take 300 txt))
                | Some v \<Rightarrow> Inr v))"

record Decision =
  approve :: bool
  reason :: json
  target_ver :: "string option"

text \<open>The service URLs come from the process environment.\<close>

record urls =
  PG_URL :: string
  IFX_URL :: string
  ANS_URL :: string

text \<open>What the run-out of a playbook is, as the automation server reports it.\<close>

record playbook_result =
  returncode :: int
  stdout :: string
  stderr :: string

text \<open>
  What the semantic-review client did inside the \<open>try\<close> of \<open>llm_gate\<close>, up to
  \<open>json.loads\<close>: something raised before a message content was there (import, client
  construction, the request, \<open>resp.choices[0]\<close>), or \<open>json.loads\<close> raised on the content,
  or the content decoded to a JSON value.
\<close>

datatype llm_outcome = Llm_raised py_error | Llm_not_json string | Llm_json json

text \<open>
  The collaborators as the agent meets them in one run. A read is answered with a reply
  that carries the payload. A write is answered with a reply whose payload \<open>()\<close> says
  that the server's handler ran and committed; the handler itself is modelled on the store
  below, and a reply that makes \<open>post\<close> raise leaves the store as it was.
\<close>

record env =
  get_router_reply :: "string \<Rightarrow> router reply"
  get_policy_reply :: "string \<Rightarrow> policy option reply"
  cpu_avg_reply :: "string \<Rightarrow> string \<Rightarrow> real option reply"
  mem_free_min_reply :: "string \<Rightarrow> string \<Rightarrow> real option reply"
  critical_error_count_reply :: "string \<Rightarrow> string \<Rightarrow> int reply"
  llm :: llm_outcome
  record_decision_reply :: "string \<Rightarrow> string \<Rightarrow> unit reply"
  update_upgrade_status_reply :: "nat \<Rightarrow> string \<Rightarrow> unit reply"
  upgrade_reply :: "string \<Rightarrow> string option \<Rightarrow> bool \<Rightarrow> playbook_result reply"

text \<open>
  Lines 39-50: the verdict on the router row, the policy dictionary and the three readings
  as lines 35-37 left them in \<open>cpu\<close>, \<open>mem\<close> and \<open>errs\<close>.
\<close>

definition rule_verdict ::
  "policy_file \<Rightarrow> (real \<Rightarrow> string) \<Rightarrow> router \<Rightarrow> policy \<Rightarrow> real \<Rightarrow> real \<Rightarrow> int \<Rightarrow> Decision" where
  "rule_verdict pf fmt r pol cpu mem errs =
     (let max_cpu = threshold (max_cpu_percent pol) (defaults_max_cpu_percent pf);
          min_mem = threshold (min_free_mem_percent pol) (defaults_min_free_mem_percent pf);
          max_err = defaults_max_critical_errors pf;
          within_window =
            (if truthy_str (r_maintenance_window r)
             then (if \<not> defaults_require_maintenance_window pf then True else True)
             else True);
          ok = (cpu \<le> max_cpu \<and> mem \<ge> min_mem \<and> errs \<le> max_err \<and> within_window);
          rsn = ''cpu_avg='' @ fmt cpu @ ''<= '' @ fmt max_cpu
                @ '', mem_min='' @ fmt mem @ ''>= '' @ fmt min_mem
                @ '', crit_errs='' @ str_int errs @ ''<= '' @ str_int max_err
                @ '', window='' @ str_bool within_window;
          target = or_str (r_target_ver r) (r_current_ver r)
      in \<lparr>approve = ok,
          reason = JStr (if ok then rsn else ''Denied: '' @ rsn),
          target_ver = target\<rparr>)"

text \<open>\<open>post(...) or {}\<close> on the answer of \<open>/tool/get_policy\<close> (JSON null when no row matched).\<close>

definition policy_or_empty :: "policy option \<Rightarrow> policy" where
  "policy_or_empty p = (case p of None \<Rightarrow> empty_policy | Some row \<Rightarrow> row)"

definition rule_decision ::
  "policy_file \<Rightarrow> (real \<Rightarrow> string) \<Rightarrow> urls \<Rightarrow> env \<Rightarrow> string \<Rightarrow> py_error + Decision" where
  "rule_decision pf fmt u e router_id =
     (case post (PG_URL u @ ''/tool/get_router'') (get_router_reply e router_id) of
        Inl x \<Rightarrow> Inl x
      | Inr r \<Rightarrow>
     (case post (PG_URL u @ ''/tool/get_policy'') (get_policy_reply e router_id) of
        Inl x \<Rightarrow> Inl x
      | Inr p \<Rightarrow>
     (let pol = policy_or_empty p;
          window = defaults_window pf
      in
     (case post (IFX_URL u @ ''/tool/cpu_avg'') (cpu_avg_reply e router_id window) of
        Inl x \<Rightarrow> Inl x
      | Inr avg_cpu \<Rightarrow>
     (case post (IFX_URL u @ ''/tool/mem_free_min'') (mem_free_min_reply e router_id window) of
        Inl x \<Rightarrow> Inl x
      | Inr min_free_mem \<Rightarrow>
     (case post (IFX_URL u @ ''/tool/critical_error_count'')
             (critical_error_count_reply e router_id window) of
        Inl x \<Rightarrow> Inl x
      | Inr errs \<Rightarrow>
          Inr (rule_verdict pf fmt r pol (or_num avg_cpu 100) (or_num min_free_mem 0) errs)))))))"

section \<open>SafetyGate\<close>

subsection \<open>llm_gate (agent/decision_agent.py)\<close>

text \<open>Lines 71-72: decode, then build the Decision; any of the steps may raise.\<close>

definition gate_reply_decision :: "llm_outcome \<Rightarrow> Decision \<Rightarrow> py_error + Decision" where
  "gate_reply_decision out decision =
     (case out of
        Llm_raised x \<Rightarrow> Inl x
      | Llm_not_json m \<Rightarrow> Inl (Raised m)
      | Llm_json data \<Rightarrow>
          (case getitem data ''approve'' of
             Inl x \<Rightarrow> Inl x
           | Inr a \<Rightarrow>
          (case getitem data ''reason'' of
             Inl x \<Rightarrow> Inl x
           | Inr rsn \<Rightarrow>
               Inr \<lparr>approve = truthy a, reason = rsn, target_ver = target_ver decision\<rparr>)))"

definition llm_gate :: "policy_file \<Rightarrow> llm_outcome \<Rightarrow> Decision \<Rightarrow> Decision" where
  "llm_gate pf out decision =
     (if \<not> llm_gate_enabled pf then decision
      else (case gate_reply_decision out decision of
              Inr d \<Rightarrow> d
            | Inl x \<Rightarrow>
                \<lparr>approve = False,
                 reason = JStr (''LLM gate error: '' @ str_error x),
                 target_ver = target_ver decision\<rparr>))"

section \<open>The audit store and the automation backend\<close>

text \<open>
  The \<open>upgrades\<close> and \<open>audit_events\<close> tables (servers/mcp_postgres/server.py and
  common/database.py) and the requests that reached the automation backend. An upgrade id
  is the position of its row, counted from 1, as a serial column gives it.
\<close>

datatype info =
    Info_none
  | Info_reason json
  | Info_error string
  | Info_result playbook_result
  | Info_details json

record upgrade_row =
  u_router_id :: string
  u_requested_by :: string
  u_decision :: string
  u_reason :: json
  u_target_ver :: "string option"
  u_status :: string

record audit_event =
  a_router_id :: string
  a_event :: string
  a_details :: info

record backend_call =
  b_router_id :: string
  b_target_ver :: "string option"
  b_check :: bool

record world =
  upgrades :: "upgrade_row list"
  audit_events :: "audit_event list"
  backend_calls :: "backend_call list"


text \<open>
  The handler of \<open>update_upgrade_status\<close>: the row's status is overwritten and one audit
  event \<open>upgrade_status:<status>\<close> is inserted for the row's router; an id that matches no
  row updates nothing and inserts nothing.
\<close>

definition set_status :: "nat \<Rightarrow> string \<Rightarrow> info \<Rightarrow> world \<Rightarrow> world" where
  "set_status upgrade_id status details w =
     (if 0 < upgrade_id \<and> upgrade_id \<le> length (upgrades w)
      then (let row = upgrades w ! (upgrade_id - 1)
            in w\<lparr>upgrades := (upgrades w)[upgrade_id - 1 := row\<lparr>u_status := status\<rparr>],
                 audit_events := audit_events w @
                   [\<lparr>a_router_id = u_router_id row,
                     a_event = ''upgrade_status:'' @ status,
                     a_details = details\<rparr>]\<rparr>)
      else w)"


text \<open>
  The \<open>/tool/upgrade\<close> endpoint of the automation server (servers/mcp_ansible/server.py): a
  playbook run with a non-zero return code is answered with HTTP 500, any other with the
  run itself. \<open>txt\<close> is the body text as the web framework renders it.
\<close>

definition upgrade_endpoint :: "string \<Rightarrow> playbook_result \<Rightarrow> playbook_result reply" where
  "upgrade_endpoint txt res =
     (if returncode res \<noteq> 0 then Http 500 txt None else Http 200 txt (Some res))"

section \<open>UpgradeOrchestrator\<close>

subsection \<open>decide_and_act (agent/decision_agent.py)\<close>









section \<open>The MCP agent (src/agent/mcp_agent.py)\<close>

text \<open>
  What \<open>call_mcp_tool\<close> came back with: it raised (no such client, the session call
  failed), or it returned the decoded JSON text of the tool's answer. The repository's
  servers answer a failed tool with an object holding \<open>error\<close>, and a tool that ran with
  the payload.
\<close>

datatype 'a tool_result = Tool_raised py_error | Tool_error string | Tool_ok 'a

text \<open>
  What the semantic-review client did inside the \<open>try\<close> of \<open>llm_gate_decision\<close>, up to
  \<open>json.loads\<close>: the request or \<open>response.content[0]\<close> raised, or the first content block
  is not of type \<open>text\<close>, or it is and \<open>json.loads\<close> raised on it or decoded it.
\<close>

datatype msg_outcome =
    Msg_raised py_error
  | Msg_other_block string
  | Msg_not_json string
  | Msg_json json

record mcp_env =
  m_get_router :: "string \<Rightarrow> router tool_result"
  m_get_policy :: "string \<Rightarrow> policy option tool_result"
  m_health_summary :: "string \<Rightarrow> string \<Rightarrow> metrics tool_result"
  m_llm :: msg_outcome
  m_record_decision :: "string \<Rightarrow> string \<Rightarrow> unit tool_result"
  m_update_upgrade_status :: "nat option \<Rightarrow> string \<Rightarrow> unit tool_result"
  m_upgrade :: "string \<Rightarrow> string option \<Rightarrow> bool \<Rightarrow> playbook_result tool_result"

subsection \<open>llm_gate_decision\<close>

text \<open>Lines 208-221: the body of the \<open>try\<close> after the request; None is falling out of it.\<close>

definition gate_decision_data ::
  "msg_outcome \<Rightarrow> UpgradeDecision \<Rightarrow> py_error + UpgradeDecision option" where
  "gate_decision_data out rule =
     (case out of
        Msg_raised x \<Rightarrow> Inl x
      | Msg_other_block ty \<Rightarrow> Inr None
      | Msg_not_json m \<Rightarrow> Inl (Raised m)
      | Msg_json decision_data \<Rightarrow>
          (case getitem decision_data ''approve'' of
             Inl x \<Rightarrow> Inl x
           | Inr a \<Rightarrow>
          (case getitem decision_data ''reason'' of
             Inl x \<Rightarrow> Inl x
           | Inr rsn \<Rightarrow>
          (case getitem decision_data ''confidence'' of
             Inl x \<Rightarrow> Inl x
           | Inr c \<Rightarrow>
               Inr (Some \<lparr>ud_approve = a, ud_reason = rsn,
                          ud_target_ver = ud_target_ver rule, ud_confidence = c\<rparr>)))))"

definition llm_gate_decision :: "policy_file \<Rightarrow> msg_outcome \<Rightarrow> UpgradeDecision \<Rightarrow> UpgradeDecision" where
  "llm_gate_decision pf out rule =
     (if \<not> llm_gate_enabled pf then rule
      else (case gate_decision_data out rule of
              Inr (Some d) \<Rightarrow> d
            | Inl x \<Rightarrow>
                \<lparr>ud_approve = JBool False,
                 ud_reason = JStr (''LLM gate failed: '' @ str_error x),
                 ud_target_ver = ud_target_ver rule,
                 ud_confidence = JNum 0\<rparr>
            | Inr None \<Rightarrow> rule))"

subsection \<open>The store handlers of servers/postgres_server.py\<close>



text \<open>
  The \<open>upgrade\<close> tool of servers/ansible_server.py; the request is logged. A failed tool
  answers \<open>success = False\<close>, a playbook that ran answers \<open>success = (returncode == 0)\<close>.
\<close>

definition mcp_upgrade ::
  "mcp_env \<Rightarrow> string \<Rightarrow> string option \<Rightarrow> bool \<Rightarrow> world
   \<Rightarrow> (py_error + bool \<times> info) \<times> world" where
  "mcp_upgrade e router_id target chk w =
     ((case m_upgrade e router_id target chk of
         Tool_raised x \<Rightarrow> Inl x
       | Tool_error m \<Rightarrow> Inr (False, Info_error m)
       | Tool_ok res \<Rightarrow> Inr (returncode res = 0, Info_result res)),
      w\<lparr>backend_calls := backend_calls w @
           [\<lparr>b_router_id = router_id, b_target_ver = target, b_check = chk\<rparr>]\<rparr>)"

subsection \<open>analyze_upgrade_readiness\<close>




subsection \<open>execute_upgrade\<close>





section \<open>Vocabulary of the properties\<close>

text \<open>A decoded reply of the gate from which \<open>data[k]\<close> raises: it lacks the field.\<close>

definition lacks :: "json \<Rightarrow> string \<Rightarrow> bool" where
  "lacks data k = (case getitem data k of Inl _ \<Rightarrow> True | Inr _ \<Rightarrow> False)"

text \<open>
  A reply on which \<open>post\<close> raises: the request itself failed, the status code reports an
  error, or the body is not JSON.
\<close>

definition failed_reply :: "'a reply \<Rightarrow> bool" where
  "failed_reply r =
     (case r of
        Conn_error _ \<Rightarrow> True
      | Http code _ body \<Rightarrow> (400 \<le> code \<and> code < 600) \<or> body = None)"











section \<open>Sample inputs\<close>

text \<open>
  A policy file, a router, the service URLs of the code's defaults and collaborators that
  answer every request; the scenarios of the properties vary them. \<open>fmt_whole\<close> renders a
  whole number as Python does an int.
\<close>

definition fmt_whole :: "real \<Rightarrow> string" where
  "fmt_whole x = str_int \<lfloor>x\<rfloor>"

definition ok :: "'a \<Rightarrow> 'a reply" where
  "ok v = Http 200 [] (Some v)"

definition sample_file :: policy_file where
  "sample_file =
     \<lparr>defaults_window = ''2h'', defaults_max_cpu_percent = 70,
      defaults_min_free_mem_percent = 30, defaults_max_critical_errors = 0,
      defaults_require_maintenance_window = False, llm_gate_enabled = True\<rparr>"

definition sample_router :: router where
  "sample_router =
     \<lparr>r_target_ver = Some ''17.9'', r_current_ver = Some ''17.3'',
      r_maintenance_window = None\<rparr>"

definition sample_policy :: policy where
  "sample_policy = \<lparr>max_cpu_percent = Some 75, min_free_mem_percent = Some 25\<rparr>"

definition sample_urls :: urls where
  "sample_urls =
     \<lparr>PG_URL = ''http://localhost:7001'', IFX_URL = ''http://localhost:7002'',
      ANS_URL = ''http://localhost:7003''\<rparr>"

definition sample_run :: playbook_result where
  "sample_run = \<lparr>returncode = 0, stdout = ''ok=3 changed=1'', stderr = []\<rparr>"

definition sample_env :: env where
  "sample_env =
     \<lparr>get_router_reply = (\<lambda>_. ok sample_router),
      get_policy_reply = (\<lambda>_. ok (Some sample_policy)),
      cpu_avg_reply = (\<lambda>_ _. ok (Some 45)),
      mem_free_min_reply = (\<lambda>_ _. ok (Some 60)),
      critical_error_count_reply = (\<lambda>_ _. ok 0),
      llm = Llm_json (JObj [(''approve'', JBool True), (''reason'', JStr ''healthy'')]),
      record_decision_reply = (\<lambda>_ _. ok ()),
      update_upgrade_status_reply = (\<lambda>_ _. ok ()),
      upgrade_reply = (\<lambda>_ _ _. ok sample_run)\<rparr>"

definition sample_metrics :: metrics where
  "sample_metrics = \<lparr>cpu_avg = Val 45, mem_free_min = Val 60, critical_errors = Some 0\<rparr>"

definition sample_mcp_env :: mcp_env where
  "sample_mcp_env =
     \<lparr>m_get_router = (\<lambda>_. Tool_ok sample_router),
      m_get_policy = (\<lambda>_. Tool_ok (Some sample_policy)),
      m_health_summary = (\<lambda>_ _. Tool_ok sample_metrics),
      m_llm = Msg_json (JObj [(''approve'', JBool True), (''reason'', JStr ''healthy''),
                              (''confidence'', JNum 0.9)]),
      m_record_decision = (\<lambda>_ _. Tool_ok ()),
      m_update_upgrade_status = (\<lambda>_ _. Tool_ok ()),
      m_upgrade = (\<lambda>_ _ _. Tool_ok sample_run)\<rparr>"

definition empty_world :: world where
  "empty_world = \<lparr>upgrades = [], audit_events = [], backend_calls = []\<rparr>"










section \<open>Properties\<close>

lemmas sample_defs =
  sample_env_def sample_file_def sample_router_def sample_policy_def sample_urls_def
  sample_run_def sample_metrics_def sample_mcp_env_def empty_world_def

lemmas py_defs =
  policy_or_empty_def empty_policy_def threshold_def or_num_def or_str_def truthy_str_def
  fmt_whole_def str_int_def str_bool_def get_default_def

lemma post_ok: "post url (ok v) = Inr v"
  by (simp add: post_def ok_def)

subsection \<open>HealthAggregator\<close>

text \<open>
  C8. The derived health status is \<open>unknown\<close> when the CPU average or the minimum free
  memory could not be obtained; otherwise it is \<open>critical\<close> if there are critical errors,
  else \<open>warning\<close> if the CPU average is above 80 or free memory below 20, else \<open>caution\<close>
  if the CPU average is above 70 or free memory below 30, else \<open>healthy\<close>.
\<close>

theorem calculate_health_status_table:
  "calculate_health_status None mem errors = ''unknown''
   \<and> calculate_health_status cpu None errors = ''unknown''
   \<and> calculate_health_status (Some c) (Some m) errors =
       (if errors > 0 then ''critical''
        else if c > 80 \<or> m < 20 then ''warning''
        else if c > 70 \<or> m < 30 then ''caution''
        else ''healthy'')"
  by (cases cpu) (simp_all add: calculate_health_status_def)

subsection \<open>PolicyEvaluator\<close>

text \<open>
  C2. The claim is that the verdict approves exactly when the four conditions hold on the
  snapshot. \<open>rule_decision\<close> breaks it at a CPU reading of zero: with the policy
  \<open>max_cpu = 75\<close>, \<open>min_mem = 25\<close> and the readings \<open>avg_cpu = 0\<close>, \<open>min_free_mem = 60\<close>,
  \<open>critical_errors = 0\<close>, all four conditions hold and the verdict is a denial whose reason
  prints \<open>cpu_avg=100\<close>.
\<close>

theorem zero_cpu_reading_denied:
  "rule_decision sample_file fmt_whole sample_urls
     (sample_env\<lparr>cpu_avg_reply := \<lambda>_ _. ok (Some 0)\<rparr>) ''R1''
   = Inr \<lparr>approve = False,
          reason = JStr ''Denied: cpu_avg=100<= 75, mem_min=60>= 25, crit_errs=0<= 0, window=True'',
          target_ver = Some ''17.9''\<rparr>"
  by (simp add: rule_decision_def rule_verdict_def post_ok sample_defs py_defs Let_def)

text \<open>
  What \<open>evaluate_upgrade_rules\<close> does on the same question: it approves exactly when the
  four conditions hold on the values \<open>metrics.get\<close> returned.
\<close>

lemma evaluate_upgrade_rules_approve:
  "ud_approve (evaluate_upgrade_rules pf fmt r pol \<lparr>hs_metrics = Some m\<rparr>)
   = JBool (cpu_ok (get_default (cpu_avg m) 100)
              (threshold (max_cpu_percent pol) (defaults_max_cpu_percent pf))
            \<and> mem_ok (get_default (mem_free_min m) 0)
              (threshold (min_free_mem_percent pol) (defaults_min_free_mem_percent pf))
            \<and> (case critical_errors m of None \<Rightarrow> 0 | Some n \<Rightarrow> n)
              \<le> defaults_max_critical_errors pf)"
  by (simp add: evaluate_upgrade_rules_def Let_def)

text \<open>
  C10. In \<open>rule_decision\<close> a CPU reading of exactly zero is replaced by 100 before the
  evaluation: when the five reads succeed and the CPU reading is 0, the verdict is the one
  of lines 39-50 at \<open>cpu = 100\<close>, and for every policy whose CPU limit lies in [0, 100) it
  is a denial, although \<open>0 \<le> max_cpu_percent\<close>.
\<close>

theorem zero_cpu_replaced_by_100:
  assumes "post (PG_URL u @ ''/tool/get_router'') (get_router_reply e rid) = Inr r"
    and "post (PG_URL u @ ''/tool/get_policy'') (get_policy_reply e rid) = Inr p"
    and "post (IFX_URL u @ ''/tool/cpu_avg'') (cpu_avg_reply e rid (defaults_window pf))
           = Inr (Some 0)"
    and "post (IFX_URL u @ ''/tool/mem_free_min'') (mem_free_min_reply e rid (defaults_window pf))
           = Inr mem"
    and "post (IFX_URL u @ ''/tool/critical_error_count'')
           (critical_error_count_reply e rid (defaults_window pf)) = Inr errs"
    and "0 \<le> threshold (max_cpu_percent (policy_or_empty p)) (defaults_max_cpu_percent pf)"
    and "threshold (max_cpu_percent (policy_or_empty p)) (defaults_max_cpu_percent pf) < 100"
  shows "rule_decision pf fmt u e rid
           = Inr (rule_verdict pf fmt r (policy_or_empty p) 100 (or_num mem 0) errs)
         \<and> \<not> approve (rule_verdict pf fmt r (policy_or_empty p) 100 (or_num mem 0) errs)"
  using assms by (simp add: rule_decision_def rule_verdict_def or_num_def Let_def)

theorem zero_cpu_replaced_by_100_witness:
  "(0::real) \<le> 75 \<and> (75::real) < 100
   \<and> rule_decision sample_file fmt_whole sample_urls
        (sample_env\<lparr>cpu_avg_reply := \<lambda>_ _. ok (Some 0)\<rparr>) ''R1''
      = Inr (rule_verdict sample_file fmt_whole sample_router sample_policy 100 60 0)
   \<and> \<not> approve (rule_verdict sample_file fmt_whole sample_router sample_policy 100 60 0)"
  using zero_cpu_replaced_by_100 [where u = sample_urls
      and e = "sample_env\<lparr>cpu_avg_reply := \<lambda>_ _. ok (Some 0)\<rparr>" and rid = "''R1''"
      and r = sample_router and p = "Some sample_policy" and pf = sample_file
      and mem = "Some 60" and errs = 0 and fmt = fmt_whole]
  by (simp add: post_ok sample_defs py_defs)

lemma rule_decision_cpu_reply:
  "rule_decision pf fmt u (e\<lparr>cpu_avg_reply := \<lambda>_ _. Http c t (Some None)\<rparr>) rid
   = rule_decision pf fmt u (e\<lparr>cpu_avg_reply := \<lambda>_ _. Http c t (Some (Some 100))\<rparr>) rid"
  by (simp add: rule_decision_def post_def or_num_def Let_def split: sum.splits)

lemma rule_decision_mem_reply:
  "rule_decision pf fmt u (e\<lparr>mem_free_min_reply := \<lambda>_ _. Http c t (Some None)\<rparr>) rid
   = rule_decision pf fmt u (e\<lparr>mem_free_min_reply := \<lambda>_ _. Http c t (Some (Some 0))\<rparr>) rid"
  by (simp add: rule_decision_def post_def or_num_def Let_def split: sum.splits)

text \<open>
  C6, as amended. An absent CPU average is never evaluated more favourably than 100, and an
  absent minimum of free memory never more favourably than 0. \<open>rule_decision\<close> evaluates a
  reading of None exactly as the reading 100 (for memory, 0). \<open>evaluate_upgrade_rules\<close>
  evaluates a missing key exactly as the value 100 (for memory, 0), and on a null value
  it fails the condition outright, whatever the threshold. So with the CPU average absent
  the verdict is a denial for every CPU limit below 100, and with the memory minimum absent
  for every memory floor above 0.
\<close>

theorem absent_metric_least_favourable:
  "rule_decision pf fmt u (e\<lparr>cpu_avg_reply := \<lambda>_ _. Http c t (Some None)\<rparr>) rid
     = rule_decision pf fmt u (e\<lparr>cpu_avg_reply := \<lambda>_ _. Http c t (Some (Some 100))\<rparr>) rid
   \<and> rule_decision pf fmt u (e\<lparr>mem_free_min_reply := \<lambda>_ _. Http c t (Some None)\<rparr>) rid
     = rule_decision pf fmt u (e\<lparr>mem_free_min_reply := \<lambda>_ _. Http c t (Some (Some 0))\<rparr>) rid
   \<and> evaluate_upgrade_rules pf fmt r pol \<lparr>hs_metrics = Some (m\<lparr>cpu_avg := Missing\<rparr>)\<rparr>
     = evaluate_upgrade_rules pf fmt r pol \<lparr>hs_metrics = Some (m\<lparr>cpu_avg := Val 100\<rparr>)\<rparr>
   \<and> evaluate_upgrade_rules pf fmt r pol \<lparr>hs_metrics = Some (m\<lparr>mem_free_min := Missing\<rparr>)\<rparr>
     = evaluate_upgrade_rules pf fmt r pol \<lparr>hs_metrics = Some (m\<lparr>mem_free_min := Val 0\<rparr>)\<rparr>
   \<and> ud_approve (evaluate_upgrade_rules pf fmt r pol \<lparr>hs_metrics = Some (m\<lparr>cpu_avg := Null\<rparr>)\<rparr>)
     = JBool False
   \<and> ud_approve (evaluate_upgrade_rules pf fmt r pol \<lparr>hs_metrics = Some (m\<lparr>mem_free_min := Null\<rparr>)\<rparr>)
     = JBool False
   \<and> (threshold (max_cpu_percent pol) (defaults_max_cpu_percent pf) < 100 \<longrightarrow>
        ud_approve (evaluate_upgrade_rules pf fmt r pol \<lparr>hs_metrics = Some (m\<lparr>cpu_avg := Missing\<rparr>)\<rparr>)
          = JBool False)
   \<and> (0 < threshold (min_free_mem_percent pol) (defaults_min_free_mem_percent pf) \<longrightarrow>
        ud_approve (evaluate_upgrade_rules pf fmt r pol \<lparr>hs_metrics = Some (m\<lparr>mem_free_min := Missing\<rparr>)\<rparr>)
          = JBool False)"
proof -
  have missing:
    "evaluate_upgrade_rules pf fmt r pol \<lparr>hs_metrics = Some (m\<lparr>cpu_avg := Missing\<rparr>)\<rparr>
     = evaluate_upgrade_rules pf fmt r pol \<lparr>hs_metrics = Some (m\<lparr>cpu_avg := Val 100\<rparr>)\<rparr>"
    "evaluate_upgrade_rules pf fmt r pol \<lparr>hs_metrics = Some (m\<lparr>mem_free_min := Missing\<rparr>)\<rparr>
     = evaluate_upgrade_rules pf fmt r pol \<lparr>hs_metrics = Some (m\<lparr>mem_free_min := Val 0\<rparr>)\<rparr>"
    by (simp_all add: evaluate_upgrade_rules_def get_default_def Let_def)
  have null:
    "ud_approve (evaluate_upgrade_rules pf fmt r pol \<lparr>hs_metrics = Some (m\<lparr>cpu_avg := Null\<rparr>)\<rparr>)
     = JBool False"
    "ud_approve (evaluate_upgrade_rules pf fmt r pol \<lparr>hs_metrics = Some (m\<lparr>mem_free_min := Null\<rparr>)\<rparr>)
     = JBool False"
    by (simp_all add: evaluate_upgrade_rules_def get_default_def cpu_ok_def mem_ok_def Let_def)
  have denied:
    "threshold (max_cpu_percent pol) (defaults_max_cpu_percent pf) < 100 \<longrightarrow>
       ud_approve (evaluate_upgrade_rules pf fmt r pol \<lparr>hs_metrics = Some (m\<lparr>cpu_avg := Missing\<rparr>)\<rparr>)
         = JBool False"
    "0 < threshold (min_free_mem_percent pol) (defaults_min_free_mem_percent pf) \<longrightarrow>
       ud_approve (evaluate_upgrade_rules pf fmt r pol \<lparr>hs_metrics = Some (m\<lparr>mem_free_min := Missing\<rparr>)\<rparr>)
         = JBool False"
    by (simp_all add: evaluate_upgrade_rules_def get_default_def cpu_ok_def mem_ok_def Let_def)
  show ?thesis
    using rule_decision_cpu_reply rule_decision_mem_reply missing null denied by blast
qed

theorem absent_metric_least_favourable_witness:
  "(75::real) < 100 \<and> (0::real) < 25
   \<and> ud_approve (evaluate_upgrade_rules sample_file fmt_whole sample_router sample_policy
        \<lparr>hs_metrics = Some (sample_metrics\<lparr>cpu_avg := Missing\<rparr>)\<rparr>) = JBool False
   \<and> ud_approve (evaluate_upgrade_rules sample_file fmt_whole sample_router sample_policy
        \<lparr>hs_metrics = Some (sample_metrics\<lparr>mem_free_min := Missing\<rparr>)\<rparr>) = JBool False"
  using absent_metric_least_favourable [where pf = sample_file and fmt = fmt_whole
      and r = sample_router and pol = sample_policy and m = sample_metrics
      and u = sample_urls and e = sample_env and c = 200 and t = "[]" and rid = "''R1''"]
  by (simp add: evaluate_upgrade_rules_def cpu_ok_def mem_ok_def Let_def sample_defs py_defs)

text \<open>
  The claim C6 as it was stated, refuted: with a CPU limit of 100, a null CPU average is
  denied by \<open>evaluate_upgrade_rules\<close>, and the CPU average 100 is approved.
\<close>

theorem null_cpu_not_as_100_counterexample:
  "ud_approve (evaluate_upgrade_rules sample_file fmt_whole sample_router
       \<lparr>max_cpu_percent = Some 100, min_free_mem_percent = Some 25\<rparr>
       \<lparr>hs_metrics = Some \<lparr>cpu_avg = Null, mem_free_min = Val 60, critical_errors = Some 0\<rparr>\<rparr>)
     = JBool False
   \<and> ud_approve (evaluate_upgrade_rules sample_file fmt_whole sample_router
       \<lparr>max_cpu_percent = Some 100, min_free_mem_percent = Some 25\<rparr>
       \<lparr>hs_metrics = Some \<lparr>cpu_avg = Val 100, mem_free_min = Val 60, critical_errors = Some 0\<rparr>\<rparr>)
     = JBool True"
  by (simp add: evaluate_upgrade_rules_def cpu_ok_def mem_ok_def sample_defs py_defs Let_def)

subsection \<open>SafetyGate\<close>

text \<open>
  C1. With the gate enabled, every error raised inside the \<open>try\<close> in which the gate
  backend's opinion is obtained yields a verdict with \<open>approve = false\<close> whose reason names
  the gate failure and the error, whatever the rule verdict was (also when it approved);
  the target version is the rule verdict's. This holds for \<open>llm_gate\<close> and for
  \<open>llm_gate_decision\<close>. The errors raised there are: the request (or the access to the
  answer) raising, \<open>json.loads\<close> raising on the answer, and a field lookup raising on the
  decoded answer (\<open>approve\<close>, \<open>reason\<close>, and for \<open>llm_gate_decision\<close> also \<open>confidence\<close>).
\<close>

theorem gate_error_fails_closed:
  assumes "llm_gate_enabled pf"
  shows "(gate_reply_decision out d = Inl x \<longrightarrow>
            llm_gate pf out d
              = \<lparr>approve = False, reason = JStr (''LLM gate error: '' @ str_error x),
                 target_ver = target_ver d\<rparr>)
         \<and> (gate_decision_data mout rd = Inl y \<longrightarrow>
            llm_gate_decision pf mout rd
              = \<lparr>ud_approve = JBool False, ud_reason = JStr (''LLM gate failed: '' @ str_error y),
                 ud_target_ver = ud_target_ver rd, ud_confidence = JNum 0\<rparr>)
         \<and> gate_reply_decision (Llm_raised x1) d = Inl x1
         \<and> gate_reply_decision (Llm_not_json m1) d = Inl (Raised m1)
         \<and> (getitem data1 ''approve'' = Inl x2 \<longrightarrow>
              gate_reply_decision (Llm_json data1) d = Inl x2)
         \<and> (getitem data2 ''approve'' = Inr a2 \<and> getitem data2 ''reason'' = Inl x3 \<longrightarrow>
              gate_reply_decision (Llm_json data2) d = Inl x3)
         \<and> gate_decision_data (Msg_raised y1) rd = Inl y1
         \<and> gate_decision_data (Msg_not_json m2) rd = Inl (Raised m2)
         \<and> (getitem data3 ''approve'' = Inl y2 \<longrightarrow>
              gate_decision_data (Msg_json data3) rd = Inl y2)
         \<and> (getitem data4 ''approve'' = Inr a4 \<and> getitem data4 ''reason'' = Inl y3 \<longrightarrow>
              gate_decision_data (Msg_json data4) rd = Inl y3)
         \<and> (getitem data5 ''approve'' = Inr a5 \<and> getitem data5 ''reason'' = Inr r5
              \<and> getitem data5 ''confidence'' = Inl y4 \<longrightarrow>
              gate_decision_data (Msg_json data5) rd = Inl y4)"
  using assms
  by (simp add: llm_gate_def gate_reply_decision_def llm_gate_decision_def gate_decision_data_def)

theorem gate_error_fails_closed_witness:
  "llm_gate_enabled sample_file
   \<and> gate_reply_decision (Llm_not_json ''Expecting value: line 1 column 1 (char 0)'')
        \<lparr>approve = True, reason = JStr ''cpu ok'', target_ver = Some ''17.9''\<rparr>
      = Inl (Raised ''Expecting value: line 1 column 1 (char 0)'')
   \<and> llm_gate sample_file (Llm_not_json ''Expecting value: line 1 column 1 (char 0)'')
        \<lparr>approve = True, reason = JStr ''cpu ok'', target_ver = Some ''17.9''\<rparr>
      = \<lparr>approve = False,
         reason = JStr ''LLM gate error: Expecting value: line 1 column 1 (char 0)'',
         target_ver = Some ''17.9''\<rparr>
   \<and> gate_decision_data (Msg_raised (Raised ''Request timed out.''))
        \<lparr>ud_approve = JBool True, ud_reason = JStr ''All conditions met'',
         ud_target_ver = Some ''17.9'', ud_confidence = JNum 0.8\<rparr>
      = Inl (Raised ''Request timed out.'')
   \<and> llm_gate_decision sample_file (Msg_raised (Raised ''Request timed out.''))
        \<lparr>ud_approve = JBool True, ud_reason = JStr ''All conditions met'',
         ud_target_ver = Some ''17.9'', ud_confidence = JNum 0.8\<rparr>
      = \<lparr>ud_approve = JBool False, ud_reason = JStr ''LLM gate failed: Request timed out.'',
         ud_target_ver = Some ''17.9'', ud_confidence = JNum 0\<rparr>
   \<and> getitem (JArr []) ''approve''
      = Inl (TypeError ''list indices must be integers or slices, not str'')
   \<and> gate_reply_decision (Llm_json (JArr []))
        \<lparr>approve = True, reason = JStr ''cpu ok'', target_ver = Some ''17.9''\<rparr>
      = Inl (TypeError ''list indices must be integers or slices, not str'')
   \<and> getitem (JObj [(''approve'', JBool True)]) ''approve'' = Inr (JBool True)
   \<and> getitem (JObj [(''approve'', JBool True)]) ''reason'' = Inl (KeyError ''reason'')
   \<and> gate_reply_decision (Llm_json (JObj [(''approve'', JBool True)]))
        \<lparr>approve = True, reason = JStr ''cpu ok'', target_ver = Some ''17.9''\<rparr>
      = Inl (KeyError ''reason'')
   \<and> getitem (JStr ''yes'') ''approve'' = Inl (TypeError ''string indices must be integers'')
   \<and> gate_decision_data (Msg_json (JStr ''yes''))
        \<lparr>ud_approve = JBool True, ud_reason = JStr ''All conditions met'',
         ud_target_ver = Some ''17.9'', ud_confidence = JNum 0.8\<rparr>
      = Inl (TypeError ''string indices must be integers'')
   \<and> gate_decision_data (Msg_json (JObj [(''approve'', JBool True)]))
        \<lparr>ud_approve = JBool True, ud_reason = JStr ''All conditions met'',
         ud_target_ver = Some ''17.9'', ud_confidence = JNum 0.8\<rparr>
      = Inl (KeyError ''reason'')
   \<and> getitem (JObj [(''approve'', JBool True), (''reason'', JStr ''healthy'')]) ''confidence''
      = Inl (KeyError ''confidence'')
   \<and> gate_decision_data
        (Msg_json (JObj [(''approve'', JBool True), (''reason'', JStr ''healthy'')]))
        \<lparr>ud_approve = JBool True, ud_reason = JStr ''All conditions met'',
         ud_target_ver = Some ''17.9'', ud_confidence = JNum 0.8\<rparr>
      = Inl (KeyError ''confidence'')"
  using gate_error_fails_closed [where pf = sample_file
      and out = "Llm_not_json ''Expecting value: line 1 column 1 (char 0)''"
      and x = "Raised ''Expecting value: line 1 column 1 (char 0)''"
      and d = "\<lparr>approve = True, reason = JStr ''cpu ok'', target_ver = Some ''17.9''\<rparr>"
      and mout = "Msg_raised (Raised ''Request timed out.'')"
      and y = "Raised ''Request timed out.''"
      and rd = "\<lparr>ud_approve = JBool True, ud_reason = JStr ''All conditions met'',
         ud_target_ver = Some ''17.9'', ud_confidence = JNum 0.8\<rparr>"
      and ?x1.0 = "Raised ''Request timed out.''" and ?m1.0 = "''Extra data''"
      and ?data1.0 = "JArr []"
      and ?x2.0 = "TypeError ''list indices must be integers or slices, not str''"
      and ?data2.0 = "JObj [(''approve'', JBool True)]" and ?a2.0 = "JBool True"
      and ?x3.0 = "KeyError ''reason''"
      and ?y1.0 = "Raised ''Request timed out.''" and ?m2.0 = "''Extra data''"
      and ?data3.0 = "JStr ''yes''" and ?y2.0 = "TypeError ''string indices must be integers''"
      and ?data4.0 = "JObj [(''approve'', JBool True)]" and ?a4.0 = "JBool True"
      and ?y3.0 = "KeyError ''reason''"
      and ?data5.0 = "JObj [(''approve'', JBool True), (''reason'', JStr ''healthy'')]"
      and ?a5.0 = "JBool True" and ?r5.0 = "JStr ''healthy''"
      and ?y4.0 = "KeyError ''confidence''"]
  by (simp add: sample_file_def llm_gate_def gate_reply_decision_def llm_gate_decision_def
      gate_decision_data_def)

text \<open>
  By design \<open>llm_gate\<close> asks its backend for \<open>approve\<close> and \<open>reason\<close> only and its verdict has
  no confidence: a reply without \<open>confidence\<close> is complete for it.
\<close>

lemma llm_gate_reads_no_confidence:
  "lacks (JObj [(''approve'', JBool False), (''reason'', JStr ''errors rising'')]) ''confidence''
   \<and> llm_gate sample_file
        (Llm_json (JObj [(''approve'', JBool False), (''reason'', JStr ''errors rising'')]))
        \<lparr>approve = True, reason = JStr ''cpu ok'', target_ver = Some ''17.9''\<rparr>
      = \<lparr>approve = False, reason = JStr ''errors rising'', target_ver = Some ''17.9''\<rparr>"
  by (simp add: lacks_def llm_gate_def gate_reply_decision_def sample_file_def)

text \<open>
  When the first content block of the answer is not of type \<open>text\<close>, \<open>llm_gate_decision\<close>
  falls out of its \<open>try\<close> and returns the rule verdict.
\<close>

lemma other_block_passes_through:
  "llm_gate_decision pf (Msg_other_block ty) rd = rd"
  by (simp add: llm_gate_decision_def gate_decision_data_def)

text \<open>
  C7. The claim says that a reply of the gate backend that is malformed, or lacks a
  required field, is a gate failure with \<open>approve = false\<close>, and that the rule verdict is
  never passed through. The gates are evaluated here, enabled, on three malformed replies.
  A reply whose \<open>approve\<close> is the string \<open>"false"\<close> instead of a boolean: \<open>llm_gate\<close> computes
  \<open>bool("false")\<close> and turns a denial of the rules into an approval, and the verdict of
  \<open>llm_gate_decision\<close> holds the string, which \<open>execute_upgrade\<close> tests as true. An answer
  whose first content block is not of type \<open>text\<close>: \<open>llm_gate_decision\<close> returns the
  approving rule verdict unchanged.
\<close>

theorem malformed_reply_passes_gate:
  "llm_gate_enabled sample_file
   \<and> llm_gate sample_file
        (Llm_json (JObj [(''approve'', JStr ''false''), (''reason'', JStr ''cpu trend rising'')]))
        \<lparr>approve = False, reason = JStr ''Denied: cpu_avg=90<= 75'', target_ver = Some ''17.9''\<rparr>
      = \<lparr>approve = True, reason = JStr ''cpu trend rising'', target_ver = Some ''17.9''\<rparr>
   \<and> truthy (ud_approve (llm_gate_decision sample_file
        (Msg_json (JObj [(''approve'', JStr ''false''), (''reason'', JStr ''cpu trend rising''),
                         (''confidence'', JNum 0.9)]))
        \<lparr>ud_approve = JBool False, ud_reason = JStr ''Rule check failed'',
         ud_target_ver = Some ''17.9'', ud_confidence = JNum 0.8\<rparr>))
   \<and> llm_gate_decision sample_file (Msg_other_block ''tool_use'')
        \<lparr>ud_approve = JBool True, ud_reason = JStr ''All conditions met'',
         ud_target_ver = Some ''17.9'', ud_confidence = JNum 0.8\<rparr>
      = \<lparr>ud_approve = JBool True, ud_reason = JStr ''All conditions met'',
         ud_target_ver = Some ''17.9'', ud_confidence = JNum 0.8\<rparr>"
  by (simp add: sample_file_def llm_gate_def gate_reply_decision_def llm_gate_decision_def
      gate_decision_data_def)

subsection \<open>UpgradeOrchestrator\<close>


lemma upgrade_endpoint_failed: "returncode res \<noteq> 0 \<Longrightarrow> failed_reply (upgrade_endpoint txt res)"
  by (simp add: upgrade_endpoint_def failed_reply_def)




lemma status_set_status:
  "0 < i \<Longrightarrow> i \<le> length (upgrades w) \<Longrightarrow> u_status (upgrades (set_status i s d w) ! (i - 1)) = s"
  by (simp add: set_status_def Let_def)








lemma mcp_upgrade_effect:
  "mcp_upgrade e rid tv chk w = (r, w') \<Longrightarrow> audit_events w' = audit_events w"
  by (auto simp: mcp_upgrade_def)
















































end
